theory Spec2Isabelle
  imports Main "HOL-Library.AList" "HOL-Library.Multiset"
begin

section \<open>Python values\<close>

text \<open>
  An exception carries the text that \<^verbatim>\<open>str(e)\<close> yields. The classes that occur are the
  built-in ones the interpreter raises (\<^verbatim>\<open>TypeError\<close>, \<^verbatim>\<open>ValueError\<close>, \<^verbatim>\<open>KeyError\<close>), the
  plain \<^verbatim>\<open>Exception\<close> raised by the retry loop, and the two classes of the AWS client
  library (\<^verbatim>\<open>ClientError\<close> of an API call, \<^verbatim>\<open>WaiterError\<close> of a waiter).
\<close>

datatype exn =
    Exception string
  | TypeError string
  | ValueError string
  | KeyError string
  | ClientError string
  | WaiterError string

primrec str :: "exn \<Rightarrow> string" where
  "str (Exception m) = m"
| "str (TypeError m) = m"
| "str (ValueError m) = m"
| "str (KeyError m) = m"
| "str (ClientError m) = m"
| "str (WaiterError m) = m"

text \<open>The values stored in a result dictionary: a string or \<^verbatim>\<open>None\<close>.\<close>

datatype pyval = PyNone | PyStr string

definition of_opt :: "string option \<Rightarrow> pyval" where
  "of_opt x = (case x of None \<Rightarrow> PyNone | Some s \<Rightarrow> PyStr s)"

text \<open>A dictionary with string keys, in insertion order.\<close>

type_synonym py_dict = "(string \<times> pyval) list"

text \<open>
  \<^verbatim>\<open>r[k]\<close> where \<^verbatim>\<open>r\<close> is a dictionary or \<^verbatim>\<open>None\<close>: subscripting \<^verbatim>\<open>None\<close> raises
  \<^verbatim>\<open>TypeError\<close>, a missing key raises \<^verbatim>\<open>KeyError\<close>.
\<close>

definition subscript :: "py_dict option \<Rightarrow> string \<Rightarrow> exn + pyval" where
  "subscript r k =
     (case r of
        None \<Rightarrow> Inl (TypeError (CHR 0x27 # ''NoneType'' @ CHR 0x27 # '' object is not subscriptable''))
      | Some d \<Rightarrow>
          (case map_of d k of
             None \<Rightarrow> Inl (KeyError (CHR 0x27 # k @ [CHR 0x27]))
           | Some v \<Rightarrow> Inr v))"

text \<open>Truthiness of an optional string and of an optional dictionary or list.\<close>

definition truthy :: "'a list option \<Rightarrow> bool" where
  "truthy x = (case x of None \<Rightarrow> False | Some s \<Rightarrow> s \<noteq> [])"

text \<open>\<^verbatim>\<open>str(n)\<close> of an integer, and an optional string inside an f-string.\<close>

definition digit_char :: "nat \<Rightarrow> char" where
  "digit_char d = ''0123456789'' ! d"

fun str_nat :: "nat \<Rightarrow> string" where
  "str_nat n = (if n < 10 then [digit_char n] else str_nat (n div 10) @ [digit_char (n mod 10)])"

declare str_nat.simps [simp del]

definition str_int :: "int \<Rightarrow> string" where
  "str_int i = (if i < 0 then CHR ''-'' # str_nat (nat (- i)) else str_nat (nat i))"

definition fmt :: "string option \<Rightarrow> string" where
  "fmt x = (case x of None \<Rightarrow> ''None'' | Some s \<Rightarrow> s)"

section \<open>EC2InstanceConfig and its defaults\<close>

record EC2InstanceConfig =
  instance_type :: string
  name :: "string option"
  image_id :: "string option"
  key_name :: "string option"
  security_group_ids :: "string list option"
  subnet_id :: "string option"
  user_data :: "string option"
  tags :: "(string \<times> string) list option"
  volume_size :: int
  volume_type :: string
  iam_instance_profile :: "string option"
  spot_instance :: bool
  spot_max_price :: "string option"
  spot_max_retries :: int
  spot_retry_delay :: int

text \<open>
  The dataclass with its declared defaults: only \<^verbatim>\<open>instance_type\<close> is required.
\<close>

definition EC2InstanceConfig_init :: "string \<Rightarrow> EC2InstanceConfig" where
  "EC2InstanceConfig_init ty =
     \<lparr> instance_type = ty, name = None, image_id = None, key_name = None,
       security_group_ids = None, subnet_id = None, user_data = None, tags = None,
       volume_size = 8, volume_type = ''gp3'', iam_instance_profile = None,
       spot_instance = True, spot_max_price = None, spot_max_retries = 3,
       spot_retry_delay = 30 \<rparr>"

definition default_tags :: "EC2InstanceConfig \<Rightarrow> (string \<times> string) list" where
  "default_tags config =
     [(''Environment'', ''Development''),
      (''Project'', ''AutoProvisioned''),
      (''InstanceType'', if spot_instance config then ''Spot'' else ''OnDemand'')]"

text \<open>
  \<^verbatim>\<open>_set_defaults\<close> on the contents of the configuration object; \<open>now\<close> is what
  \<^verbatim>\<open>int(time.time())\<close> reads. The three tests are Python truthiness tests: \<^verbatim>\<open>None\<close>, the
  empty string and the empty dictionary all count as missing.
\<close>

definition set_defaults :: "int \<Rightarrow> EC2InstanceConfig \<Rightarrow> EC2InstanceConfig" where
  "set_defaults now config0 =
     (let config = config0;
          config = (if \<not> truthy (name config)
                    then config\<lparr>name := Some (instance_type config @ ''-'' @ str_int now)\<rparr>
                    else config);
          config = (if \<not> truthy (image_id config)
                    then config\<lparr>image_id := Some ''ami-0ae8595e2aff47037''\<rparr>
                    else config);
          config = (if \<not> truthy (tags config)
                    then config\<lparr>tags := Some (default_tags config)\<rparr>
                    else config)
      in config)"

subsection \<open>The same function on a store of objects\<close>

text \<open>
  To speak about the caller's object, configurations live in a store: a list of objects, a
  reference being an index. \<^verbatim>\<open>copy.deepcopy\<close> allocates a new object with equal contents
  (the nested list and dictionary are values of the record, so they are copied with it);
  attribute assignment updates the object a reference points to.
\<close>

type_synonym store = "EC2InstanceConfig list"

definition deepcopy :: "store \<Rightarrow> nat \<Rightarrow> nat \<times> store" where
  "deepcopy h r = (length h, h @ [h ! r])"

definition setattr :: "store \<Rightarrow> nat \<Rightarrow> (EC2InstanceConfig \<Rightarrow> EC2InstanceConfig) \<Rightarrow> store" where
  "setattr h r f = h[r := f (h ! r)]"

definition set_defaults_obj :: "int \<Rightarrow> store \<Rightarrow> nat \<Rightarrow> nat \<times> store" where
  "set_defaults_obj now h0 config0 =
     (let (config, h) = deepcopy h0 config0;
          h = (if \<not> truthy (name (h ! config))
               then setattr h config
                      (\<lambda>c. c\<lparr>name := Some (instance_type (h ! config) @ ''-'' @ str_int now)\<rparr>)
               else h);
          h = (if \<not> truthy (image_id (h ! config))
               then setattr h config (\<lambda>c. c\<lparr>image_id := Some ''ami-0ae8595e2aff47037''\<rparr>)
               else h);
          h = (if \<not> truthy (tags (h ! config))
               then setattr h config (\<lambda>c. c\<lparr>tags := Some (default_tags (h ! config))\<rparr>)
               else h)
      in (config, h))"

section \<open>The remote API and the process environment\<close>

record BlockDevice =
  DeviceName :: string
  VolumeSize :: int
  VolumeType :: string
  DeleteOnTermination :: bool
  Encrypted :: bool

record LaunchParams =
  ImageId :: "string option"
  InstanceType :: string
  BlockDeviceMappings :: "BlockDevice list"
  KeyName :: "string option"
  SecurityGroupIds :: "string list option"
  SubnetId :: "string option"
  UserData :: "string option"
  IamInstanceProfile :: "string option"

text \<open>
  Everything the program does to the outside world is an event: a call of the EC2 client or
  resource with the arguments that matter, or a completed \<^verbatim>\<open>time.sleep\<close>. The history of
  one worker is the list of its events, oldest first. Logger calls build a message and
  return; they decide nothing and are left out.
\<close>

datatype event =
    RequestSpotInstances LaunchParams "string option"
  | WaitSpotInstanceRequestFulfilled string
  | DescribeSpotInstanceRequests string
  | WaitInstanceRunning string
  | CreateTags "string list" "(string \<times> pyval) list"
  | CancelSpotInstanceRequests string
  | RunInstances LaunchParams int int "(string \<times> pyval) list"
  | InstanceVolumes string
  | InstanceLoad string
  | TerminateInstances string
  | Sleep int

record instance_attrs =
  public_ip_address :: "string option"
  private_ip_address :: "string option"
  state_Name :: string

text \<open>
  The environment of one worker. Every remote operation answers as a function of the
  worker's history up to and including the call itself, so an answer may depend on the
  arguments and on everything that happened before; it either raises or returns the part of
  the response the program reads. The clock and the date are read from the history so far.
  \<open>b64encode\<close> is the standard library's encoder, left uninterpreted.
\<close>

record aws =
  time_time :: "event list \<Rightarrow> int"
  strftime :: "event list \<Rightarrow> string"
  b64encode :: "string \<Rightarrow> string"
  request_spot_instances :: "event list \<Rightarrow> exn + string"
  wait_spot_instance_request_fulfilled :: "event list \<Rightarrow> exn option"
  describe_spot_instance_requests :: "event list \<Rightarrow> exn + string"
  wait_instance_running :: "event list \<Rightarrow> exn option"
  client_create_tags :: "event list \<Rightarrow> exn option"
  cancel_spot_instance_requests :: "event list \<Rightarrow> exn option"
  run_instances :: "event list \<Rightarrow> exn + string"
  instance_volumes :: "event list \<Rightarrow> exn + string list"
  instance_load :: "event list \<Rightarrow> exn + instance_attrs"
  terminate_instances :: "event list \<Rightarrow> exn option"

definition call :: "(event list \<Rightarrow> 'a) \<Rightarrow> event \<Rightarrow> event list \<Rightarrow> 'a \<times> event list" where
  "call f ev w = (f (w @ [ev]), w @ [ev])"

text \<open>
  \<^verbatim>\<open>time.sleep\<close> raises \<^verbatim>\<open>ValueError\<close> on a negative length and sleeps otherwise. (A length
  beyond the range of the platform's clock raises \<^verbatim>\<open>OverflowError\<close> in the interpreter; that
  bound is not modelled, so for such a length the history records a sleep the program never
  completes.)
\<close>

definition sleep :: "int \<Rightarrow> event list \<Rightarrow> (exn + unit) \<times> event list" where
  "sleep secs w =
     (if secs < 0 then (Inl (ValueError ''sleep length must be non-negative''), w)
      else (Inr (), w @ [Sleep secs]))"

section \<open>Provisioning one instance\<close>

definition create_block_device_mappings :: "EC2InstanceConfig \<Rightarrow> BlockDevice list" where
  "create_block_device_mappings config =
     [\<lparr> DeviceName = ''/dev/sda1'', VolumeSize = volume_size config,
        VolumeType = volume_type config, DeleteOnTermination = True, Encrypted = True \<rparr>]"

definition create_tags :: "aws \<Rightarrow> EC2InstanceConfig \<Rightarrow> event list \<Rightarrow> (string \<times> pyval) list" where
  "create_tags env config w =
     [(''Name'', of_opt (name config)),
      (''CreatedBy'', PyStr ''EC2Provisioner''),
      (''CreationDate'', PyStr (strftime env w))]
     @ (if truthy (tags config) then map (\<lambda>(k, v). (k, PyStr v)) (the (tags config)) else [])"

text \<open>
  \<^verbatim>\<open>_finalize_instance\<close>: list the volumes, tag each one (a failing call is not caught
  here), then read the instance's attributes into the result dictionary.
\<close>

fun tag_volumes ::
  "aws \<Rightarrow> EC2InstanceConfig \<Rightarrow> string list \<Rightarrow> event list \<Rightarrow> (exn + unit) \<times> event list" where
  "tag_volumes env config [] w = (Inr (), w)"
| "tag_volumes env config (volume # volumes) w =
     (case call (client_create_tags env) (CreateTags [volume] (create_tags env config w)) w of
        (Some e, w') \<Rightarrow> (Inl e, w')
      | (None, w') \<Rightarrow> tag_volumes env config volumes w')"

definition finalize_instance ::
  "aws \<Rightarrow> EC2InstanceConfig \<Rightarrow> string \<Rightarrow> string \<Rightarrow> event list \<Rightarrow> (exn + py_dict) \<times> event list" where
  "finalize_instance env config instance_id instance_type' w =
     (case call (instance_volumes env) (InstanceVolumes instance_id) w of
        (Inl e, w1) \<Rightarrow> (Inl e, w1)
      | (Inr volumes, w1) \<Rightarrow>
          (case tag_volumes env config volumes w1 of
             (Inl e, w2) \<Rightarrow> (Inl e, w2)
           | (Inr _, w2) \<Rightarrow>
               (case call (instance_load env) (InstanceLoad instance_id) w2 of
                  (Inl e, w3) \<Rightarrow> (Inl e, w3)
                | (Inr instance, w3) \<Rightarrow>
                    (Inr [(''name'', of_opt (name config)),
                          (''instance_id'', PyStr instance_id),
                          (''public_ip'', of_opt (public_ip_address instance)),
                          (''private_ip'', of_opt (private_ip_address instance)),
                          (''state'', PyStr (state_Name instance)),
                          (''status'', PyStr ''success''),
                          (''instance_type'', PyStr instance_type')], w3))))"

definition launch_on_demand_instance ::
  "aws \<Rightarrow> EC2InstanceConfig \<Rightarrow> LaunchParams \<Rightarrow> event list \<Rightarrow> (exn + py_dict) \<times> event list" where
  "launch_on_demand_instance env config launch_params w =
     (case call (run_instances env)
             (RunInstances launch_params 1 1 (create_tags env config w)) w of
        (Inl e, w1) \<Rightarrow> (Inl e, w1)
      | (Inr instance_id, w1) \<Rightarrow>
          (case call (wait_instance_running env) (WaitInstanceRunning instance_id) w1 of
             (Some e, w2) \<Rightarrow> (Inl e, w2)
           | (None, w2) \<Rightarrow> finalize_instance env config instance_id ''on-demand'' w2))"

text \<open>
  The body of the \<^verbatim>\<open>try\<close> of one spot attempt. The local variable \<^verbatim>\<open>spot_request_id\<close>
  outlives the iteration, so it is passed in (\<open>None\<close> while it is unbound) and handed
  back: it is assigned as soon as \<^verbatim>\<open>request_spot_instances\<close> has answered, and keeps its
  old binding when that call raises. A failing \<^verbatim>\<open>create_tags\<close> of the instance is caught
  inside the body.
\<close>

definition spot_try ::
  "aws \<Rightarrow> EC2InstanceConfig \<Rightarrow> LaunchParams \<Rightarrow> string option \<Rightarrow> event list
     \<Rightarrow> (exn + py_dict) \<times> string option \<times> event list" where
  "spot_try env config launch_params spot_request_id0 w =
     (case call (request_spot_instances env)
             (RequestSpotInstances launch_params
                (if truthy (spot_max_price config) then spot_max_price config else None)) w of
        (Inl e, w1) \<Rightarrow> (Inl e, spot_request_id0, w1)
      | (Inr spot_request_id, w1) \<Rightarrow>
          (case call (wait_spot_instance_request_fulfilled env)
                  (WaitSpotInstanceRequestFulfilled spot_request_id) w1 of
             (Some e, w2) \<Rightarrow> (Inl e, Some spot_request_id, w2)
           | (None, w2) \<Rightarrow>
               (case call (describe_spot_instance_requests env)
                       (DescribeSpotInstanceRequests spot_request_id) w2 of
                  (Inl e, w3) \<Rightarrow> (Inl e, Some spot_request_id, w3)
                | (Inr instance_id, w3) \<Rightarrow>
                    (case call (wait_instance_running env) (WaitInstanceRunning instance_id) w3 of
                       (Some e, w4) \<Rightarrow> (Inl e, Some spot_request_id, w4)
                     | (None, w4) \<Rightarrow>
                         (case finalize_instance env config instance_id ''spot'' w4 of
                            (Inl e, w5) \<Rightarrow> (Inl e, Some spot_request_id, w5)
                          | (Inr result, w5) \<Rightarrow>
                              (Inr (AList.update ''spot_request_id'' (PyStr spot_request_id) result),
                               Some spot_request_id,
                               snd (call (client_create_tags env)
                                      (CreateTags [instance_id] (create_tags env config w5)) w5)))))))"

text \<open>
  The \<^verbatim>\<open>for attempt in range(max_retries)\<close> loop with its \<^verbatim>\<open>except\<close> handler, by
  recursion on the attempts still to come. A raise inside the handler (the final
  \<^verbatim>\<open>Exception\<close>, or \<^verbatim>\<open>time.sleep\<close> refusing its argument) leaves the function. When the
  loop runs out of attempts the function ends without a \<^verbatim>\<open>return\<close>: its value is
  \<^verbatim>\<open>None\<close>.
\<close>

definition all_attempts_failed :: "EC2InstanceConfig \<Rightarrow> exn \<Rightarrow> exn" where
  "all_attempts_failed config e =
     Exception (''All '' @ str_int (spot_max_retries config)
                @ '' spot instance attempts failed for '' @ fmt (name config)
                @ ''. Last error: '' @ str e)"

definition cancel_failed_request :: "aws \<Rightarrow> string option \<Rightarrow> event list \<Rightarrow> event list" where
  "cancel_failed_request env spot_request_id w =
     (case spot_request_id of
        None \<Rightarrow> w
      | Some rid \<Rightarrow>
          snd (call (cancel_spot_instance_requests env) (CancelSpotInstanceRequests rid) w))"

fun spot_loop ::
  "aws \<Rightarrow> EC2InstanceConfig \<Rightarrow> LaunchParams \<Rightarrow> int list \<Rightarrow> int \<Rightarrow> string option \<Rightarrow> event list
     \<Rightarrow> (exn + py_dict option) \<times> event list" where
  "spot_loop env config launch_params [] retry_delay spot_request_id w = (Inr None, w)"
| "spot_loop env config launch_params (attempt # rest) retry_delay spot_request_id w =
     (case spot_try env config launch_params spot_request_id w of
        (Inr result, _, w1) \<Rightarrow> (Inr (Some result), w1)
      | (Inl e, spot_request_id', w1) \<Rightarrow>
          (let w2 = cancel_failed_request env spot_request_id' w1 in
           if attempt = spot_max_retries config - 1
           then (Inl (all_attempts_failed config e), w2)
           else (case sleep retry_delay w2 of
                   (Inl e', w3) \<Rightarrow> (Inl e', w3)
                 | (Inr _, w3) \<Rightarrow>
                     spot_loop env config launch_params rest (min (retry_delay * 2) 120)
                       spot_request_id' w3)))"

definition launch_spot_instance ::
  "aws \<Rightarrow> EC2InstanceConfig \<Rightarrow> LaunchParams \<Rightarrow> event list \<Rightarrow> (exn + py_dict option) \<times> event list" where
  "launch_spot_instance env config launch_params w =
     spot_loop env config launch_params [0 .. spot_max_retries config - 1]
       (spot_retry_delay config) None w"

definition launch_params_of :: "aws \<Rightarrow> EC2InstanceConfig \<Rightarrow> LaunchParams" where
  "launch_params_of env config =
     \<lparr> ImageId = image_id config,
       InstanceType = instance_type config,
       BlockDeviceMappings = create_block_device_mappings config,
       KeyName = (if truthy (key_name config) then key_name config else None),
       SecurityGroupIds =
         (if truthy (security_group_ids config) then security_group_ids config else None),
       SubnetId = (if truthy (subnet_id config) then subnet_id config else None),
       UserData =
         (if truthy (user_data config) then Some (b64encode env (the (user_data config)))
          else None),
       IamInstanceProfile =
         (if truthy (iam_instance_profile config) then iam_instance_profile config else None) \<rparr>"

definition failed_result :: "string option \<Rightarrow> exn \<Rightarrow> py_dict" where
  "failed_result config_name e =
     [(''name'', of_opt config_name), (''status'', PyStr ''failed''), (''error'', PyStr (str e))]"

text \<open>
  \<^verbatim>\<open>provision_instance\<close>: whatever is raised inside the \<^verbatim>\<open>try\<close> becomes a failed result
  under the name of the defaulted configuration; whatever the launch function returns is
  returned as it is, a dictionary or \<^verbatim>\<open>None\<close>.
\<close>

definition provision_instance ::
  "aws \<Rightarrow> EC2InstanceConfig \<Rightarrow> event list \<Rightarrow> py_dict option \<times> event list" where
  "provision_instance env config0 w =
     (let config = set_defaults (time_time env w) config0;
          launch_params = launch_params_of env config
      in case (if spot_instance config
               then launch_spot_instance env config launch_params w
               else (case launch_on_demand_instance env config launch_params w of
                       (Inl e, w') \<Rightarrow> (Inl e, w')
                     | (Inr result, w') \<Rightarrow> (Inr (Some result), w'))) of
           (Inr result, w') \<Rightarrow> (result, w')
         | (Inl e, w') \<Rightarrow> (Some (failed_result (name config) e), w'))"

section \<open>Provisioning in parallel\<close>

text \<open>
  Worker \<open>i\<close> runs \<^verbatim>\<open>provision_instance\<close> on the \<open>i\<close>-th configuration against its own
  environment \<open>envs i\<close>: the workers share nothing but the remote service, and what the
  service answers to one worker under any interleaving with the others is one of the
  environments that worker may have. A future holds what the call returned, or what it
  raised. \<open>order\<close> lists the futures' positions in the order \<^verbatim>\<open>as_completed\<close> yields them.
\<close>

type_synonym 'a future = "exn + 'a"

text \<open>
  The worker pool is created with the provisioner's \<^verbatim>\<open>max_workers\<close>, which the constructor
  stores unchecked. \<^verbatim>\<open>ThreadPoolExecutor\<close> refuses a bound that is not positive; in both
  functions below the pool is created outside every \<^verbatim>\<open>try\<close>, so the refusal leaves the
  function before any work is submitted. The bound limits how many workers run at once and
  has no other influence on what they return.
\<close>

definition ThreadPoolExecutor :: "int \<Rightarrow> exn + unit" where
  "ThreadPoolExecutor max_workers =
     (if max_workers \<le> 0 then Inl (ValueError ''max_workers must be greater than 0'')
      else Inr ())"

definition collect :: "py_dict option list \<Rightarrow> py_dict option future \<times> EC2InstanceConfig
     \<Rightarrow> py_dict option list" where
  "collect results fc =
     (case fc of
        (Inl e, config) \<Rightarrow> results @ [Some (failed_result (name config) e)]
      | (Inr result, config) \<Rightarrow>
          (case subscript result ''status'' of
             Inl e \<Rightarrow> (results @ [result]) @ [Some (failed_result (name config) e)]
           | Inr _ \<Rightarrow> results @ [result]))"

text \<open>
  The two summary counts: each subscripts every collected result, so either raises on the
  first result that is not a dictionary with a status.
\<close>

fun count_status :: "py_dict option list \<Rightarrow> string \<Rightarrow> exn + nat" where
  "count_status [] s = Inr 0"
| "count_status (r # rs) s =
     (case subscript r ''status'' of
        Inl e \<Rightarrow> Inl e
      | Inr v \<Rightarrow>
          (case count_status rs s of
             Inl e \<Rightarrow> Inl e
           | Inr n \<Rightarrow> Inr (if v = PyStr s then Suc n else n)))"

definition provision_instances_parallel ::
  "int \<Rightarrow> (nat \<Rightarrow> aws) \<Rightarrow> nat list \<Rightarrow> EC2InstanceConfig list
     \<Rightarrow> exn + py_dict option list" where
  "provision_instances_parallel max_workers envs order configs =
     (case ThreadPoolExecutor max_workers of
        Inl e \<Rightarrow> Inl e
      | Inr executor \<Rightarrow>
          (let future_to_config =
                 map (\<lambda>i. (Inr (fst (provision_instance (envs i) (configs ! i) [])), configs ! i))
                   [0 ..< length configs];
               results = foldl collect [] (map (\<lambda>i. future_to_config ! i) order)
           in case count_status results ''success'' of
                Inl e \<Rightarrow> Inl e
              | Inr successful \<Rightarrow>
                  (case count_status results ''failed'' of
                     Inl e \<Rightarrow> Inl e
                   | Inr failed \<Rightarrow> Inr results)))"

section \<open>Cleanup\<close>

definition terminate_instance :: "aws \<Rightarrow> string \<Rightarrow> event list \<Rightarrow> bool \<times> event list" where
  "terminate_instance env instance_id w =
     (case call (terminate_instances env) (TerminateInstances instance_id) w of
        (None, w') \<Rightarrow> (True, w')
      | (Some e, w') \<Rightarrow> (False, w'))"

definition record_cleanup :: "(string \<rightharpoonup> bool) \<Rightarrow> bool future \<times> string \<Rightarrow> (string \<rightharpoonup> bool)" where
  "record_cleanup results fi =
     (case fi of
        (Inr success, instance_id) \<Rightarrow> results(instance_id \<mapsto> success)
      | (Inl e, instance_id) \<Rightarrow> results(instance_id \<mapsto> False))"

text \<open>
  \<^verbatim>\<open>cleanup_instances\<close>: the pool first, then one future per list position, each recorded
  under its identifier as it completes. The only raise that can leave the function is the
  pool's.
\<close>

definition cleanup_instances ::
  "int \<Rightarrow> (nat \<Rightarrow> aws) \<Rightarrow> nat list \<Rightarrow> string list \<Rightarrow> exn + (string \<rightharpoonup> bool)" where
  "cleanup_instances max_workers envs order instance_ids =
     (case ThreadPoolExecutor max_workers of
        Inl e \<Rightarrow> Inl e
      | Inr executor \<Rightarrow>
          (let future_to_id =
                 map (\<lambda>i. (Inr (fst (terminate_instance (envs i) (instance_ids ! i) [])),
                            instance_ids ! i))
                   [0 ..< length instance_ids]
           in Inr (foldl record_cleanup Map.empty (map (\<lambda>i. future_to_id ! i) order))))"

section \<open>Observations on a history, and the scenarios used below\<close>


fun cancelled :: "event list \<Rightarrow> string list" where
  "cancelled [] = []"
| "cancelled (CancelSpotInstanceRequests rid # w) = rid # cancelled w"
| "cancelled (ev # w) = cancelled w"

fun requests :: "event list \<Rightarrow> nat" where
  "requests [] = 0"
| "requests (RequestSpotInstances lp price # w) = Suc (requests w)"
| "requests (ev # w) = requests w"


text \<open>An account in which every call succeeds, with one volume on the instance.\<close>

definition healthy_env :: aws where
  "healthy_env =
     \<lparr> time_time = (\<lambda>w. 1700000000),
       strftime = (\<lambda>w. ''2023-11-14''),
       b64encode = (\<lambda>s. s),
       request_spot_instances = (\<lambda>w. Inr ''sir-1''),
       wait_spot_instance_request_fulfilled = (\<lambda>w. None),
       describe_spot_instance_requests = (\<lambda>w. Inr ''i-1''),
       wait_instance_running = (\<lambda>w. None),
       client_create_tags = (\<lambda>w. None),
       cancel_spot_instance_requests = (\<lambda>w. None),
       run_instances = (\<lambda>w. Inr ''i-1''),
       instance_volumes = (\<lambda>w. Inr [''vol-1'']),
       instance_load =
         (\<lambda>w. Inr \<lparr> public_ip_address = Some ''203.0.113.7'',
                      private_ip_address = Some ''10.0.0.7'', state_Name = ''running'' \<rparr>),
       terminate_instances = (\<lambda>w. None) \<rparr>"

text \<open>The same account, except that tagging the volume is refused.\<close>

definition volume_tag_fails_env :: aws where
  "volume_tag_fails_env =
     healthy_env\<lparr> client_create_tags :=
       (\<lambda>w. case last w of
                CreateTags resources ts \<Rightarrow>
                  if resources = [''vol-1''] then Some (ClientError ''TagLimitExceeded'') else None
              | _ \<Rightarrow> None) \<rparr>"

text \<open>The same account, except that tagging the instance is refused.\<close>

definition instance_tag_fails_env :: aws where
  "instance_tag_fails_env =
     healthy_env\<lparr> client_create_tags :=
       (\<lambda>w. case last w of
                CreateTags resources ts \<Rightarrow>
                  if resources = [''i-1''] then Some (ClientError ''TagLimitExceeded'') else None
              | _ \<Rightarrow> None) \<rparr>"


text \<open>
  The first spot request (the worker's first call) is accepted but never fulfilled; every
  later request is refused.
\<close>

definition first_request_only_env :: aws where
  "first_request_only_env =
     healthy_env\<lparr>
       request_spot_instances :=
         (\<lambda>w. if length w = 1 then Inr ''sir-1'' else Inl (ClientError ''InsufficientCapacity'')),
       wait_spot_instance_request_fulfilled := (\<lambda>w. Some (WaiterError ''Max attempts exceeded'')) \<rparr>"

text \<open>Termination of \<^verbatim>\<open>i-bbb\<close> is refused, every other one succeeds.\<close>

definition terminate_bbb_fails_env :: aws where
  "terminate_bbb_fails_env =
     healthy_env\<lparr> terminate_instances :=
       (\<lambda>w. if last w = TerminateInstances ''i-bbb'' then Some (ClientError ''UnauthorizedOperation'')
             else None) \<rparr>"

text \<open>Every worker in the account where every call succeeds.\<close>

definition all_healthy :: "nat \<Rightarrow> aws" where
  "all_healthy i = healthy_env"

definition t3_micro :: EC2InstanceConfig where
  "t3_micro = EC2InstanceConfig_init ''t3.micro''"

definition fully_specified :: EC2InstanceConfig where
  "fully_specified =
     (EC2InstanceConfig_init ''t3.small'')
       \<lparr> name := Some ''custom-name'', image_id := Some ''ami-12345678'',
         tags := Some [(''Team'', ''infra'')] \<rparr>"

section \<open>Defaulting: frame and idempotence\<close>

lemma set_defaults_obj_ref:
  "fst (set_defaults_obj now h r) = length h"
  by (simp add: set_defaults_obj_def deepcopy_def Let_def)

lemma set_defaults_obj_length:
  "length (snd (set_defaults_obj now h r)) = Suc (length h)"
  by (simp add: set_defaults_obj_def deepcopy_def setattr_def Let_def)

lemma set_defaults_obj_old:
  "a < length h \<Longrightarrow> snd (set_defaults_obj now h r) ! a = h ! a"
  by (simp add: set_defaults_obj_def deepcopy_def setattr_def Let_def nth_append)

lemma set_defaults_obj_new:
  "r < length h \<Longrightarrow> snd (set_defaults_obj now h r) ! length h = set_defaults now (h ! r)"
  by (simp add: set_defaults_obj_def set_defaults_def deepcopy_def setattr_def Let_def nth_append)

text \<open>
  C8. Applying the defaults leaves the caller's configuration object unchanged in every
  field: the function works on a fresh copy. For every store \<open>h\<close> and every reference
  \<open>r\<close> into it, the object at \<open>r\<close> is the same after the call, the returned reference
  is a different one, every object that existed before is unchanged, and the returned
  object holds the defaulted contents.
\<close>

theorem set_defaults_frame:
  "r < length h \<Longrightarrow> set_defaults_obj now h r = (r', h') \<Longrightarrow>
     h' ! r = h ! r \<and> r' \<noteq> r \<and> take (length h) h' = h \<and> h' ! r' = set_defaults now (h ! r)"
proof -
  assume r: "r < length h" and run: "set_defaults_obj now h r = (r', h')"
  from run have r': "r' = length h" and h': "h' = snd (set_defaults_obj now h r)"
    using set_defaults_obj_ref [of now h r] by simp_all
  have len: "length h' = Suc (length h)"
    by (simp add: h' set_defaults_obj_length)
  have old: "\<And>a. a < length h \<Longrightarrow> h' ! a = h ! a"
    by (simp add: h' set_defaults_obj_old)
  have "take (length h) h' = h"
    by (rule nth_equalityI) (simp_all add: len old)
  moreover have "h' ! r' = set_defaults now (h ! r)"
    using r by (simp add: r' h' set_defaults_obj_new)
  ultimately show ?thesis using r old r' by simp
qed

theorem set_defaults_frame_witness:
  "(0::nat) < length [t3_micro] \<and>
   snd (set_defaults_obj 1700000000 [t3_micro] 0) ! 0 = t3_micro \<and>
   fst (set_defaults_obj 1700000000 [t3_micro] 0) \<noteq> 0 \<and>
   name (snd (set_defaults_obj 1700000000 [t3_micro] 0) ! 1) = Some ''t3.micro-1700000000''"
proof -
  have h: "(0::nat) < length [t3_micro]" by simp
  obtain r' h' where run: "set_defaults_obj 1700000000 [t3_micro] 0 = (r', h')"
    by (cases "set_defaults_obj 1700000000 [t3_micro] 0")
  have nm: "name (set_defaults 1700000000 t3_micro) = Some ''t3.micro-1700000000''"
    by (simp add: set_defaults_def t3_micro_def EC2InstanceConfig_init_def truthy_def
        str_int_def str_nat.simps digit_char_def Let_def)
  from set_defaults_frame [OF h run] set_defaults_obj_ref [of 1700000000 "[t3_micro]" 0] run nm
  show ?thesis by simp
qed

lemma set_defaults_truthy:
  "truthy (name (set_defaults now c)) \<and> truthy (image_id (set_defaults now c))
   \<and> truthy (tags (set_defaults now c))"
  by (simp add: set_defaults_def Let_def truthy_def default_tags_def)

lemma set_defaults_fixed:
  "truthy (name c) \<Longrightarrow> truthy (image_id c) \<Longrightarrow> truthy (tags c) \<Longrightarrow> set_defaults now c = c"
  by (simp add: set_defaults_def Let_def)

text \<open>
  After one application all three fields are present, so a second application changes
  nothing, whatever the input was and whatever the clock reads.
\<close>

lemma set_defaults_twice:
  "set_defaults now' (set_defaults now c) = set_defaults now c"
  using set_defaults_truthy [of now c] by (simp add: set_defaults_fixed)

text \<open>
  C9. Defaulting is idempotent on fully specified configurations: when the name, the image
  reference and the tags are all present (in the sense the code tests: not \<^verbatim>\<open>None\<close> and
  not empty), applying the defaults once or twice yields the input unchanged.
\<close>

theorem set_defaults_idempotent:
  "truthy (name c) \<Longrightarrow> truthy (image_id c) \<Longrightarrow> truthy (tags c) \<Longrightarrow>
     set_defaults now c = c \<and> set_defaults now' (set_defaults now c) = c"
  by (simp add: set_defaults_fixed)

theorem set_defaults_idempotent_witness:
  "truthy (name fully_specified) \<and> truthy (image_id fully_specified) \<and> truthy (tags fully_specified)
   \<and> set_defaults 1700000000 fully_specified = fully_specified
   \<and> set_defaults 1700000001 (set_defaults 1700000000 fully_specified) = fully_specified"
proof -
  have a: "truthy (name fully_specified)" and b: "truthy (image_id fully_specified)"
    and c: "truthy (tags fully_specified)"
    by (simp_all add: fully_specified_def EC2InstanceConfig_init_def truthy_def)
  from set_defaults_idempotent [OF a b c] a b c show ?thesis by simp
qed

section \<open>Cleanup: one entry per identifier\<close>

lemma order_set: "mset order = mset [0 ..< n] \<Longrightarrow> set order = {0 ..< n}"
  by (metis mset_eq_setD set_upt)

lemma order_distinct: "mset order = mset [0 ..< n] \<Longrightarrow> distinct order"
  by (metis distinct_upt mset_eq_imp_distinct_iff)

lemma order_length: "mset order = mset [0 ..< n] \<Longrightarrow> length order = n"
  by (metis length_upt mset_eq_length minus_nat.diff_0)

lemma futures_in_order:
  "set order = {0 ..< n} \<Longrightarrow> map (\<lambda>i. map g [0 ..< n] ! i) order = map g order"
  by (rule map_cong) auto

lemma dom_record_cleanup: "dom (record_cleanup m fi) = insert (snd fi) (dom m)"
  by (cases fi) (auto simp: record_cleanup_def split: sum.splits)

lemma dom_foldl_record_cleanup:
  "dom (foldl record_cleanup m fs) = dom m \<union> snd ` set fs"
  by (induction fs arbitrary: m) (auto simp: dom_record_cleanup)

lemma record_cleanup_other: "snd fi \<noteq> k \<Longrightarrow> record_cleanup m fi k = m k"
  by (cases fi) (auto simp: record_cleanup_def split: sum.splits)

lemma foldl_record_cleanup_other:
  "k \<notin> snd ` set fs \<Longrightarrow> foldl record_cleanup m fs k = m k"
  by (induction fs arbitrary: m) (auto simp: record_cleanup_other)

lemma foldl_record_cleanup_value:
  "distinct (map snd fs) \<Longrightarrow> (Inr b, k) \<in> set fs \<Longrightarrow> foldl record_cleanup m fs k = Some b"
proof (induction fs arbitrary: m)
  case Nil
  then show ?case by simp
next
  case (Cons fi fs)
  show ?case
  proof (cases "fi = (Inr b, k)")
    case True
    with Cons.prems have "k \<notin> snd ` set fs" by auto
    then have "foldl record_cleanup (record_cleanup m (Inr b, k)) fs k
                 = record_cleanup m (Inr b, k) k"
      by (rule foldl_record_cleanup_other)
    also have "\<dots> = Some b" by (simp add: record_cleanup_def)
    finally show ?thesis by (simp add: True)
  next
    case False
    with Cons.prems have "(Inr b, k) \<in> set fs" "distinct (map snd fs)" by auto
    then show ?thesis using Cons.IH by simp
  qed
qed

lemma cleanup_instances_raises:
  "max_workers \<le> 0 \<Longrightarrow>
     cleanup_instances max_workers envs order instance_ids
       = Inl (ValueError ''max_workers must be greater than 0'')"
  by (simp add: cleanup_instances_def ThreadPoolExecutor_def)

lemma cleanup_instances_returns:
  "0 < max_workers \<Longrightarrow> \<exists>results. cleanup_instances max_workers envs order instance_ids = Inr results"
  by (simp add: cleanup_instances_def ThreadPoolExecutor_def Let_def)

lemma cleanup_instances_Inr:
  assumes "cleanup_instances max_workers envs order instance_ids = Inr results"
    and "set order = {0 ..< length instance_ids}"
  shows "results = foldl record_cleanup Map.empty
           (map (\<lambda>i. (Inr (fst (terminate_instance (envs i) (instance_ids ! i) [])) :: bool future,
                       instance_ids ! i)) order)"
  using assms(1)
  by (simp add: cleanup_instances_def ThreadPoolExecutor_def Let_def
      futures_in_order [OF assms(2)] split: if_splits)

lemma cleanup_instances_dom:
  assumes run: "cleanup_instances max_workers envs order instance_ids = Inr results"
    and o: "mset order = mset [0 ..< length instance_ids]"
  shows "dom results = set instance_ids"
proof -
  have s: "set order = {0 ..< length instance_ids}" using o by (rule order_set)
  have "(\<lambda>i. instance_ids ! i) ` {0 ..< length instance_ids} = set instance_ids"
    by (metis map_nth set_map set_upt)
  then show ?thesis
    by (simp add: cleanup_instances_Inr [OF run s] dom_foldl_record_cleanup image_image s)
qed

lemma cleanup_instances_value:
  assumes run: "cleanup_instances max_workers envs order instance_ids = Inr results"
    and d: "distinct instance_ids" and o: "mset order = mset [0 ..< length instance_ids]"
    and i: "i < length instance_ids"
  shows "results (instance_ids ! i) = Some (fst (terminate_instance (envs i) (instance_ids ! i) []))"
proof -
  have s: "set order = {0 ..< length instance_ids}" using o by (rule order_set)
  have "mset (map (\<lambda>i. instance_ids ! i) order)
          = mset (map (\<lambda>i. instance_ids ! i) [0 ..< length instance_ids])"
    using o by (metis mset_map)
  then have "distinct (map (\<lambda>i. instance_ids ! i) order)"
    using d by (metis map_nth mset_eq_imp_distinct_iff)
  then have dm: "distinct (map snd (map (\<lambda>i. (Inr (fst (terminate_instance (envs i) (instance_ids ! i) [])) :: bool future,
                       instance_ids ! i)) order))"
    by (simp add: comp_def)
  have "i \<in> set order" using s i by simp
  then have m: "(Inr (fst (terminate_instance (envs i) (instance_ids ! i) [])), instance_ids ! i)
        \<in> set (map (\<lambda>i. (Inr (fst (terminate_instance (envs i) (instance_ids ! i) [])) :: bool future,
                       instance_ids ! i)) order)"
    by auto
  show ?thesis
    unfolding cleanup_instances_Inr [OF run s]
    by (rule foldl_record_cleanup_value [OF dm m])
qed

lemma terminate_instance_result:
  "fst (terminate_instance env instance_id w)
     = (terminate_instances env (w @ [TerminateInstances instance_id]) = None)"
  by (simp add: terminate_instance_def call_def split: option.splits)

text \<open>
  C7 (amended). On a provisioner whose \<^verbatim>\<open>max_workers\<close> is at least 1, \<^verbatim>\<open>cleanup_instances\<close>
  given \<open>M\<close> distinct identifiers does not raise, however many terminations fail: it returns
  a mapping with exactly \<open>M\<close> entries, one per identifier, in which an identifier maps to
  \<^verbatim>\<open>True\<close> exactly when its termination call did not raise, so every failed termination maps
  to \<^verbatim>\<open>False\<close>. This holds for every environment of every worker and every completion order.
\<close>

theorem cleanup_instances_complete:
  assumes "0 < max_workers" and "distinct instance_ids"
    and "mset order = mset [0 ..< length instance_ids]"
  shows "\<exists>results. cleanup_instances max_workers envs order instance_ids = Inr results
       \<and> card (dom results) = length instance_ids
       \<and> dom results = set instance_ids
       \<and> (\<forall>i < length instance_ids.
            results (instance_ids ! i)
              = Some (terminate_instances (envs i) [TerminateInstances (instance_ids ! i)] = None))"
proof -
  from assms(1) obtain results
    where run: "cleanup_instances max_workers envs order instance_ids = Inr results"
    using cleanup_instances_returns by blast
  have "dom results = set instance_ids"
    using run assms(3) by (rule cleanup_instances_dom)
  moreover from this have "card (dom results) = length instance_ids"
    using assms(2) by (simp add: distinct_card)
  moreover have "\<forall>i < length instance_ids.
      results (instance_ids ! i)
        = Some (terminate_instances (envs i) [TerminateInstances (instance_ids ! i)] = None)"
    using cleanup_instances_value [OF run assms(2) assms(3)]
    by (simp add: terminate_instance_result)
  ultimately show ?thesis using run by blast
qed



theorem cleanup_instances_complete_witness:
  "(0::int) < 5 \<and> distinct [''i-aaa'', ''i-bbb'']
   \<and> mset [1, 0] = mset [0 ..< length [''i-aaa'', ''i-bbb'']]
   \<and> (\<exists>results.
         cleanup_instances 5 (\<lambda>i. terminate_bbb_fails_env) [1, 0] [''i-aaa'', ''i-bbb''] = Inr results
         \<and> card (dom results) = 2
         \<and> results ''i-aaa'' = Some True
         \<and> results ''i-bbb'' = Some False)"
proof -
  have w: "(0::int) < 5" by simp
  have d: "distinct [''i-aaa'', ''i-bbb'']" by simp
  have o: "mset [1, 0] = mset [0 ..< length [''i-aaa'', ''i-bbb'']]"
    by (simp add: upt_rec)
  have a: "terminate_instances terminate_bbb_fails_env [TerminateInstances ''i-aaa''] = None"
    and b: "terminate_instances terminate_bbb_fails_env [TerminateInstances ''i-bbb''] \<noteq> None"
    by (simp_all add: terminate_bbb_fails_env_def healthy_env_def)
  from cleanup_instances_complete [OF w d o, of "\<lambda>i. terminate_bbb_fails_env"]
  obtain results
    where run: "cleanup_instances 5 (\<lambda>i. terminate_bbb_fails_env) [1, 0] [''i-aaa'', ''i-bbb'']
                  = Inr results"
      and c: "card (dom results) = length [''i-aaa'', ''i-bbb'']"
      and v: "\<forall>i < length [''i-aaa'', ''i-bbb''].
        results ([''i-aaa'', ''i-bbb''] ! i)
          = Some (terminate_instances terminate_bbb_fails_env
                    [TerminateInstances ([''i-aaa'', ''i-bbb''] ! i)] = None)"
    by blast
  from v [THEN spec, of 0] a have v0: "results ''i-aaa'' = Some True" by simp
  from v [THEN spec, of 1] b have v1: "results ''i-bbb'' = Some False" by simp
  have "card (dom results) = 2" using c by simp
  with run v0 v1 w d o show ?thesis by blast
qed


text \<open>
  With \<^verbatim>\<open>max_workers = 0\<close> the pool's constructor raises \<^verbatim>\<open>ValueError\<close> and the function
  leaves with it, although every termination would have succeeded: no mapping is returned.
\<close>

theorem cleanup_instances_complete_counterexample:
  "distinct [''i-aaa'', ''i-bbb'']
   \<and> cleanup_instances 0 all_healthy [0, 1] [''i-aaa'', ''i-bbb'']
       = Inl (ValueError ''max_workers must be greater than 0'')"
  by (simp add: cleanup_instances_raises)

text \<open>
  C10. For every list of identifiers, duplicates included, the returned mapping has exactly
  one entry per distinct identifier; a list with a duplicate therefore yields fewer entries
  than the list is long. A mapping is returned whenever the pool can be created.
\<close>

theorem cleanup_instances_duplicates:
  assumes "mset order = mset [0 ..< length instance_ids]"
  shows "(0 < max_workers \<longrightarrow>
            (\<exists>results. cleanup_instances max_workers envs order instance_ids = Inr results))
       \<and> (\<forall>results. cleanup_instances max_workers envs order instance_ids = Inr results \<longrightarrow>
             dom results = set instance_ids
             \<and> card (dom results) = card (set instance_ids)
             \<and> (\<not> distinct instance_ids \<longrightarrow> card (dom results) < length instance_ids))"
proof -
  have less: "\<not> distinct instance_ids \<Longrightarrow> card (set instance_ids) < length instance_ids"
    by (metis card_distinct card_length le_neq_implies_less)
  have "dom results = set instance_ids
        \<and> card (dom results) = card (set instance_ids)
        \<and> (\<not> distinct instance_ids \<longrightarrow> card (dom results) < length instance_ids)"
    if run: "cleanup_instances max_workers envs order instance_ids = Inr results" for results
  proof -
    have "dom results = set instance_ids" using run assms by (rule cleanup_instances_dom)
    with less show ?thesis by simp
  qed
  with cleanup_instances_returns [of max_workers envs order instance_ids] show ?thesis
    by blast
qed


theorem cleanup_instances_duplicates_witness:
  "mset [0, 1] = mset [0 ..< length [''i-aaa'', ''i-aaa'']]
   \<and> \<not> distinct [''i-aaa'', ''i-aaa''] \<and> (0::int) < 5
   \<and> (\<exists>results.
         cleanup_instances 5 (\<lambda>i. healthy_env) [0, 1] [''i-aaa'', ''i-aaa''] = Inr results
         \<and> dom results = {''i-aaa''}
         \<and> card (dom results) = 1
         \<and> card (dom results) < length [''i-aaa'', ''i-aaa''])"
proof -
  have o: "mset [0, 1] = mset [0 ..< length [''i-aaa'', ''i-aaa'']]"
    by (simp add: upt_rec)
  have w: "(0::int) < 5" by simp
  have n: "\<not> distinct [''i-aaa'', ''i-aaa'']" by simp
  note inst = cleanup_instances_duplicates [OF o, of 5 "\<lambda>i. healthy_env"]
  from inst w obtain results
    where run: "cleanup_instances 5 (\<lambda>i. healthy_env) [0, 1] [''i-aaa'', ''i-aaa''] = Inr results"
    by blast
  from inst run have p: "dom results = set [''i-aaa'', ''i-aaa'']
        \<and> card (dom results) = card (set [''i-aaa'', ''i-aaa''])
        \<and> (\<not> distinct [''i-aaa'', ''i-aaa''] \<longrightarrow> card (dom results) < length [''i-aaa'', ''i-aaa''])"
    by blast
  from p have "dom results = {''i-aaa''}" "card (dom results) = 1" by simp_all
  moreover from p n have "card (dom results) < length [''i-aaa'', ''i-aaa'']" by blast
  ultimately show ?thesis using run o w n by blast
qed

section \<open>Histories\<close>






lemma finalize_instance_status:
  "finalize_instance env config instance_id ty w = (Inr d, w') \<Longrightarrow>
     map_of d ''status'' = Some (PyStr ''success'') \<and> map_of d ''name'' = Some (of_opt (name config))"
  by (auto simp: finalize_instance_def call_def split: sum.splits prod.splits)


lemma spot_try_status:
  "spot_try env config lp sid w = (Inr d, sid', w') \<Longrightarrow>
     map_of d ''status'' = Some (PyStr ''success'') \<and> map_of d ''name'' = Some (of_opt (name config))"
  by (auto simp: spot_try_def call_def update_conv'
      split: sum.splits prod.splits option.splits dest!: finalize_instance_status)



section \<open>The retry loop\<close>









lemma spot_loop_success:
  "spot_loop env config lp atts d sid w = (Inr (Some res), wz) \<Longrightarrow>
     map_of res ''status'' = Some (PyStr ''success'')
     \<and> map_of res ''name'' = Some (of_opt (name config))"
proof (induction atts arbitrary: d sid w)
  case Nil
  then show ?case by simp
next
  case (Cons a rest)
  obtain r sid' w1 where t: "spot_try env config lp sid w = (r, sid', w1)"
    by (cases "spot_try env config lp sid w")
  show ?case
  proof (cases r)
    case (Inr res')
    with Cons.prems t have "res' = res" by simp
    then show ?thesis using spot_try_status t Inr by blast
  next
    case (Inl e)
    with Cons.prems t show ?thesis
      by (auto simp: Let_def sleep_def split: if_splits dest: Cons.IH)
  qed
qed

lemma spot_loop_returns:
  "atts \<noteq> [] \<Longrightarrow> last atts = spot_max_retries config - 1 \<Longrightarrow>
     fst (spot_loop env config lp atts d sid w) \<noteq> Inr None"
proof (induction atts arbitrary: d sid w)
  case Nil
  then show ?case by simp
next
  case (Cons a rest)
  obtain r sid' w1 where t: "spot_try env config lp sid w = (r, sid', w1)"
    by (cases "spot_try env config lp sid w")
  show ?case
  proof (cases r)
    case (Inr res')
    then show ?thesis by (simp add: t)
  next
    case (Inl e)
    show ?thesis
    proof (cases "rest = []")
      case True
      with Cons.prems have "a = spot_max_retries config - 1" by simp
      then show ?thesis by (simp add: t Inl Let_def)
    next
      case False
      with Cons.prems have "last rest = spot_max_retries config - 1" by simp
      with False Cons.IH show ?thesis
        by (simp add: t Inl Let_def sleep_def)
    qed
  qed
qed



section \<open>One acquisition\<close>

lemma set_defaults_spot [simp]:
  "spot_instance (set_defaults now c) = spot_instance c"
  "spot_max_retries (set_defaults now c) = spot_max_retries c"
  "spot_retry_delay (set_defaults now c) = spot_retry_delay c"
  by (simp_all add: set_defaults_def Let_def)

lemma attempts_last: "1 \<le> n \<Longrightarrow> [0 .. n - 1] \<noteq> [] \<and> last [0 .. n - 1] = n - 1"
  by (simp add: upto_rec2 [of 0 "n - 1"])


lemma launch_on_demand_instance_status:
  "launch_on_demand_instance env config lp w = (Inr d, w') \<Longrightarrow>
     map_of d ''status'' = Some (PyStr ''success'') \<and> map_of d ''name'' = Some (of_opt (name config))"
  by (auto simp: launch_on_demand_instance_def call_def
      split: sum.splits prod.splits option.splits dest!: finalize_instance_status)





lemmas run_defs =
  provision_instance_def set_defaults_def launch_params_of_def launch_spot_instance_def
  launch_on_demand_instance_def spot_try_def finalize_instance_def cancel_failed_request_def
  all_attempts_failed_def call_def sleep_def create_tags_def create_block_device_mappings_def
  failed_result_def truthy_def of_opt_def fmt_def str_int_def digit_char_def default_tags_def
  EC2InstanceConfig_init_def t3_micro_def Let_def

lemma attempts_upto: "[0 .. 2] = [0, 1, 2]" "[0 .. 1] = [0, 1]" "[0 .. 0] = [0]" "[0 .. - 1] = []"
  by (simp_all add: upto.simps)









text \<open>
  C2. The specification says that \<^verbatim>\<open>provision_instance\<close> returns a result with status
  \<^verbatim>\<open>success\<close> or \<^verbatim>\<open>failed\<close> for every configuration and every value of
  \<^verbatim>\<open>spot_max_retries\<close>. With \<^verbatim>\<open>spot_max_retries = 0\<close> the retry loop has no iteration,
  \<^verbatim>\<open>_launch_spot_instance\<close> ends without a \<^verbatim>\<open>return\<close>, and \<^verbatim>\<open>provision_instance\<close> hands
  on \<^verbatim>\<open>None\<close>, whatever the environment: there is no result and no status to read, and no
  call was made.
\<close>

theorem provision_instance_no_attempts:
  "provision_instance env (t3_micro\<lparr>spot_max_retries := 0\<rparr>) [] = (None, [])
   \<and> subscript (fst (provision_instance env (t3_micro\<lparr>spot_max_retries := 0\<rparr>) [])) ''status''
       = Inl (TypeError (CHR 0x27 # ''NoneType'' @ CHR 0x27 # '' object is not subscriptable''))"
  by (simp add: run_defs attempts_upto subscript_def)

text \<open>
  C1. The specification says that \<^verbatim>\<open>provision_instances_parallel\<close> returns exactly one result per
  configuration. For the single configuration with \<^verbatim>\<open>spot_max_retries = 0\<close> the worker
  returns \<^verbatim>\<open>None\<close>; the collecting loop appends it, fails on reading its status and appends
  a failed result as well (two entries for one configuration, the second under the name of
  the original configuration, which is \<^verbatim>\<open>None\<close>); the summary count then raises
  \<^verbatim>\<open>TypeError\<close> on the \<^verbatim>\<open>None\<close> entry, outside every handler, so the function returns
  nothing. This is so for every pool size the pool accepts (the default is 5); a pool size
  the pool refuses makes the function raise before any work is done.
\<close>

theorem provision_instances_parallel_no_attempts:
  "foldl collect []
     [(Inr (fst (provision_instance (envs 0) (t3_micro\<lparr>spot_max_retries := 0\<rparr>) [])),
       t3_micro\<lparr>spot_max_retries := 0\<rparr>)]
     = [None,
        Some [(''name'', PyNone), (''status'', PyStr ''failed''),
              (''error'', PyStr (CHR 0x27 # ''NoneType'' @ CHR 0x27 # '' object is not subscriptable''))]]
   \<and> provision_instances_parallel max_workers envs [0] [t3_micro\<lparr>spot_max_retries := 0\<rparr>]
       = Inl (if max_workers \<le> 0 then ValueError ''max_workers must be greater than 0''
              else TypeError (CHR 0x27 # ''NoneType'' @ CHR 0x27
                                # '' object is not subscriptable''))"
proof -
  have p: "fst (provision_instance (envs 0) (t3_micro\<lparr>spot_max_retries := 0\<rparr>) []) = None"
    by (simp add: run_defs attempts_upto)
  have n: "name (t3_micro\<lparr>spot_max_retries := 0\<rparr>) = None"
    by (simp add: t3_micro_def EC2InstanceConfig_init_def)
  show ?thesis
    by (simp add: provision_instances_parallel_def ThreadPoolExecutor_def collect_def
        subscript_def failed_result_def of_opt_def p n Let_def)
qed

text \<open>Where every call succeeds, both launch modes return a success result.\<close>

lemma healthy_runs:
  "fst (provision_instance healthy_env t3_micro []) =
     Some [(''name'', PyStr ''t3.micro-1700000000''), (''instance_id'', PyStr ''i-1''),
           (''public_ip'', PyStr ''203.0.113.7''), (''private_ip'', PyStr ''10.0.0.7''),
           (''state'', PyStr ''running''), (''status'', PyStr ''success''),
           (''instance_type'', PyStr ''spot''), (''spot_request_id'', PyStr ''sir-1'')]"
  "fst (provision_instance healthy_env (t3_micro\<lparr>spot_instance := False\<rparr>) []) =
     Some [(''name'', PyStr ''t3.micro-1700000000''), (''instance_id'', PyStr ''i-1''),
           (''public_ip'', PyStr ''203.0.113.7''), (''private_ip'', PyStr ''10.0.0.7''),
           (''state'', PyStr ''running''), (''status'', PyStr ''success''),
           (''instance_type'', PyStr ''on-demand'')]"
  by (simp_all add: run_defs attempts_upto str_nat.simps healthy_env_def)

text \<open>
  C3. The specification says that a failing tagging call after the instance is running, the tagging of
  its volumes included, still yields a success result and no retry. Where everything
  succeeds except the tagging of the volume, the spot acquisition treats each attempt as
  failed: it cancels the request, retries, launches three instances in all and returns a
  failed result; the on-demand acquisition returns a failed result carrying the tagging
  error. (A failing tagging call on the spot instance itself is caught, see
  \<open>instance_tag_failure_is_not_fatal\<close>.)
\<close>

theorem volume_tag_failure_fails_acquisition:
  "fst (provision_instance volume_tag_fails_env t3_micro []) =
     Some [(''name'', PyStr ''t3.micro-1700000000''), (''status'', PyStr ''failed''),
           (''error'', PyStr ''All 3 spot instance attempts failed for t3.micro-1700000000. Last error: TagLimitExceeded'')]
   \<and> requests (snd (provision_instance volume_tag_fails_env t3_micro [])) = 3
   \<and> cancelled (snd (provision_instance volume_tag_fails_env t3_micro []))
       = [''sir-1'', ''sir-1'', ''sir-1'']
   \<and> fst (provision_instance volume_tag_fails_env (t3_micro\<lparr>spot_instance := False\<rparr>) []) =
     Some [(''name'', PyStr ''t3.micro-1700000000''), (''status'', PyStr ''failed''),
           (''error'', PyStr ''TagLimitExceeded'')]"
  by (simp add: run_defs attempts_upto str_nat.simps volume_tag_fails_env_def healthy_env_def)

lemma instance_tag_failure_is_not_fatal:
  "subscript (fst (provision_instance instance_tag_fails_env t3_micro [])) ''status''
     = Inr (PyStr ''success'')
   \<and> requests (snd (provision_instance instance_tag_fails_env t3_micro [])) = 1"
  by (simp add: run_defs attempts_upto str_nat.simps instance_tag_fails_env_def healthy_env_def
      subscript_def)

text \<open>
  C5. The specification says that a cancellation is issued exactly once for the request id obtained in
  a failed attempt, and none for an attempt that obtained no id. With two attempts, the
  first of which obtains \<^verbatim>\<open>sir-1\<close> and is never fulfilled and the second of which is refused
  at the request itself, the history shows \<^verbatim>\<open>sir-1\<close> cancelled after the first attempt and
  cancelled again after the second, in which no id was obtained: the variable of the first
  iteration is still bound.
\<close>

theorem stale_spot_request_cancelled_again:
  "snd (provision_instance first_request_only_env (t3_micro\<lparr>spot_max_retries := 2\<rparr>) [])
     = [RequestSpotInstances
          (launch_params_of first_request_only_env
             (set_defaults 1700000000 (t3_micro\<lparr>spot_max_retries := 2\<rparr>))) None,
        WaitSpotInstanceRequestFulfilled ''sir-1'',
        CancelSpotInstanceRequests ''sir-1'',
        Sleep 30,
        RequestSpotInstances
          (launch_params_of first_request_only_env
             (set_defaults 1700000000 (t3_micro\<lparr>spot_max_retries := 2\<rparr>))) None,
        CancelSpotInstanceRequests ''sir-1'']
   \<and> request_spot_instances first_request_only_env
         (take 1 (snd (provision_instance first_request_only_env
                         (t3_micro\<lparr>spot_max_retries := 2\<rparr>) [])))
       = Inr ''sir-1''
   \<and> request_spot_instances first_request_only_env
         (take 5 (snd (provision_instance first_request_only_env
                         (t3_micro\<lparr>spot_max_retries := 2\<rparr>) [])))
       = Inl (ClientError ''InsufficientCapacity'')
   \<and> cancelled (snd (provision_instance first_request_only_env
                         (t3_micro\<lparr>spot_max_retries := 2\<rparr>) []))
       = [''sir-1'', ''sir-1'']"
  by (simp add: run_defs attempts_upto str_nat.simps first_request_only_env_def healthy_env_def)


section \<open>Where every configuration yields one result\<close>

text \<open>
  For an on-demand configuration, and for a spot configuration with at least one allowed
  attempt, \<^verbatim>\<open>provision_instance\<close> does return a dictionary under the name of the defaulted
  configuration: a success result, or the failed result made of that name and the text of
  the error that was raised.
\<close>

lemma provision_instance_result:
  assumes "spot_instance cfg \<longrightarrow> 1 \<le> spot_max_retries cfg"
  shows "\<exists>d. fst (provision_instance env cfg w) = Some d
           \<and> map_of d ''name'' = Some (of_opt (name (set_defaults (time_time env w) cfg)))
           \<and> (map_of d ''status'' = Some (PyStr ''success'')
                \<or> (\<exists>e. d = [(''name'', of_opt (name (set_defaults (time_time env w) cfg))),
                             (''status'', PyStr ''failed''), (''error'', PyStr (str e))]))"
proof -
  let ?config = "set_defaults (time_time env w) cfg"
  let ?lp = "launch_params_of env ?config"
  show ?thesis
  proof (cases "spot_instance cfg")
    case False
    obtain r w' where od: "launch_on_demand_instance env ?config ?lp w = (r, w')"
      by (cases "launch_on_demand_instance env ?config ?lp w")
    show ?thesis
    proof (cases r)
      case (Inl e)
      with False od show ?thesis
        by (auto simp: provision_instance_def Let_def failed_result_def)
    next
      case (Inr d)
      with False od launch_on_demand_instance_status [of env ?config ?lp w d w'] show ?thesis
        by (simp add: provision_instance_def Let_def)
    qed
  next
    case True
    obtain out w' where sp: "spot_loop env ?config ?lp [0 .. spot_max_retries ?config - 1]
                  (spot_retry_delay ?config) None w = (out, w')"
      by (cases "spot_loop env ?config ?lp [0 .. spot_max_retries ?config - 1]
                  (spot_retry_delay ?config) None w")
    have r: "fst (provision_instance env cfg w)
               = (case out of Inr res \<Rightarrow> res | Inl x \<Rightarrow> Some (failed_result (name ?config) x))"
      using True sp
      by (simp add: provision_instance_def launch_spot_instance_def Let_def split: sum.splits)
    show ?thesis
    proof (cases out)
      case (Inl x)
      with r show ?thesis by (auto simp: failed_result_def)
    next
      case (Inr res)
      show ?thesis
      proof (cases res)
        case None
        with Inr sp attempts_last [of "spot_max_retries ?config"] True assms
          spot_loop_returns [of "[0 .. spot_max_retries ?config - 1]" ?config env ?lp
            "spot_retry_delay ?config" None w]
        show ?thesis by simp
      next
        case (Some d)
        with Inr sp spot_loop_success [of env ?config ?lp _ _ None w d w'] r show ?thesis
          by simp
      qed
    qed
  qed
qed

lemma collect_dict:
  "subscript result ''status'' = Inr v \<Longrightarrow> collect results (Inr result, config) = results @ [result]"
  by (simp add: collect_def)

lemma foldl_collect:
  "\<forall>fc \<in> set fcs. \<exists>result v. fst fc = Inr result \<and> subscript result ''status'' = Inr v \<Longrightarrow>
     foldl collect results fcs = results @ map (\<lambda>fc. case fst fc of Inr result \<Rightarrow> result | Inl e \<Rightarrow> None) fcs"
proof (induction fcs arbitrary: results)
  case Nil
  then show ?case by simp
next
  case (Cons fc fcs)
  then obtain result v config where "fc = (Inr result, config)" "subscript result ''status'' = Inr v"
    by (cases fc) auto
  with Cons show ?case by (simp add: collect_dict)
qed

lemma count_status_dicts:
  "\<forall>r \<in> set rs. \<exists>v. subscript r ''status'' = Inr v \<Longrightarrow> \<exists>n. count_status rs s = Inr n"
  by (induction rs) auto

text \<open>
  When the pool size is positive and every spot configuration allows at least one attempt,
  the parallel run returns exactly the workers' results, one per configuration, in
  completion order.
\<close>

lemma provision_instances_parallel_complete:
  assumes o: "mset order = mset [0 ..< length configs]"
    and c: "\<forall>config \<in> set configs. spot_instance config \<longrightarrow> 1 \<le> spot_max_retries config"
    and p: "0 < max_workers"
  shows "provision_instances_parallel max_workers envs order configs
           = Inr (map (\<lambda>i. fst (provision_instance (envs i) (configs ! i) [])) order)"
proof -
  let ?g = "\<lambda>i. (Inr (fst (provision_instance (envs i) (configs ! i) [])) :: py_dict option future,
                 configs ! i)"
  have s: "set order = {0 ..< length configs}" using o by (rule order_set)
  have ok: "\<exists>v. subscript (fst (provision_instance (envs i) (configs ! i) [])) ''status'' = Inr v"
    if "i < length configs" for i
  proof -
    from that c have "spot_instance (configs ! i) \<longrightarrow> 1 \<le> spot_max_retries (configs ! i)"
      by simp
    from provision_instance_result [OF this, of "envs i" "[]"] show ?thesis
      by (auto simp: subscript_def)
  qed
  have "foldl collect [] (map ?g order)
          = [] @ map (\<lambda>fc. case fst fc of Inr result \<Rightarrow> result | Inl e \<Rightarrow> None) (map ?g order)"
    by (rule foldl_collect) (use s ok in auto)
  then have results: "foldl collect [] (map ?g order)
          = map (\<lambda>i. fst (provision_instance (envs i) (configs ! i) [])) order"
    by (simp add: comp_def)
  have "\<forall>r \<in> set (map (\<lambda>i. fst (provision_instance (envs i) (configs ! i) [])) order).
          \<exists>v. subscript r ''status'' = Inr v"
    using s ok by auto
  from count_status_dicts [OF this] obtain a b where
    "count_status (map (\<lambda>i. fst (provision_instance (envs i) (configs ! i) [])) order) ''success'' = Inr a"
    "count_status (map (\<lambda>i. fst (provision_instance (envs i) (configs ! i) [])) order) ''failed'' = Inr b"
    by blast
  then show ?thesis
    using p
    by (simp add: provision_instances_parallel_def ThreadPoolExecutor_def Let_def
        futures_in_order [OF s] results)
qed

end
